theory Spec2Isabelle
  imports Complex_Main "HOL-Library.Word"
begin

section \<open>Python values\<close>

text \<open>
  A Python \<open>str\<close> is a sequence of Unicode code points, so \<open>len\<close> counts code points.
  The model keeps a string as the list of its code points; \<open>ustr\<close> turns an ASCII
  literal of the source into that representation.
\<close>

type_synonym pystr = "nat list"

definition ustr :: "string \<Rightarrow> pystr" where
  "ustr s = map of_char s"

text \<open>
  The values \<open>json.load\<close> and \<open>request.get_json\<close> produce. \<open>JObj\<close> holds the items of
  the resulting \<open>dict\<close>; a key is looked up with \<open>map_of\<close>. A float is kept by its
  value (the literals NaN and Infinity, which \<open>json\<close> also accepts, are not represented;
  no operation below looks at a float beyond its truth value).
\<close>

datatype json =
    JNull
  | JBool bool
  | JInt int
  | JFloat real
  | JStr pystr
  | JArr "json list"
  | JObj "(pystr \<times> json) list"

text \<open>
  An exception: its class name and \<open>str(e)\<close>. The messages of the built-in exceptions
  are those of CPython 3.11.
\<close>

datatype py_exc = PyExc string pystr

fun exc_str :: "py_exc \<Rightarrow> pystr" where
  "exc_str (PyExc c m) = m"

fun type_name :: "json \<Rightarrow> string" where
  "type_name JNull = ''NoneType''"
| "type_name (JBool b) = ''bool''"
| "type_name (JInt i) = ''int''"
| "type_name (JFloat r) = ''float''"
| "type_name (JStr s) = ''str''"
| "type_name (JArr xs) = ''list''"
| "type_name (JObj kvs) = ''dict''"

fun str_of_nat :: "nat \<Rightarrow> pystr" where
  "str_of_nat n = (if n < 10 then [48 + n] else str_of_nat (n div 10) @ [48 + n mod 10])"

declare str_of_nat.simps [simp del]


definition not_subscriptable :: "json \<Rightarrow> py_exc" where
  "not_subscriptable v =
     PyExc ''TypeError'' ([39] @ ustr (type_name v) @ [39] @ ustr '' object is not subscriptable'')"

text \<open>\<open>v[i]\<close> for a non-negative integer \<open>i\<close>.\<close>

fun getitem_int :: "json \<Rightarrow> nat \<Rightarrow> py_exc + json" where
  "getitem_int (JArr xs) i =
     (if i < length xs then Inr (xs ! i)
      else Inl (PyExc ''IndexError'' (ustr ''list index out of range'')))"
| "getitem_int (JStr s) i =
     (if i < length s then Inr (JStr [s ! i])
      else Inl (PyExc ''IndexError'' (ustr ''string index out of range'')))"
| "getitem_int (JObj kvs) i = Inl (PyExc ''KeyError'' (str_of_nat i))"
| "getitem_int v i = Inl (not_subscriptable v)"

text \<open>
  \<open>v[k]\<close> for a string \<open>k\<close>. The \<open>str\<close> of a \<open>KeyError\<close> is the \<open>repr\<close> of the key: the key
  between single quotes, for the keys the program uses (ASCII letters and underscores).
\<close>

fun getitem_str :: "json \<Rightarrow> pystr \<Rightarrow> py_exc + json" where
  "getitem_str (JObj kvs) k =
     (case map_of kvs k of
        Some v \<Rightarrow> Inr v
      | None \<Rightarrow> Inl (PyExc ''KeyError'' ([39] @ k @ [39])))"
| "getitem_str (JArr xs) k =
     Inl (PyExc ''TypeError'' (ustr ''list indices must be integers or slices, not str''))"
| "getitem_str (JStr s) k =
     Inl (PyExc ''TypeError'' (ustr ''string indices must be integers, not '' @ [39] @ ustr ''str'' @ [39]))"
| "getitem_str v k = Inl (not_subscriptable v)"

section \<open>gemini\_chat.py: APIKeyManager\<close>

record key_manager =
  api_file :: pystr
  api_keys :: json
  current_index :: nat
  total_keys :: nat



definition get_current_key :: "key_manager \<Rightarrow> py_exc + json" where
  "get_current_key km =
     (case getitem_int (api_keys km) (current_index km) of
        Inl e \<Rightarrow> Inl e
      | Inr c \<Rightarrow> getitem_str c (ustr ''key''))"

definition get_current_key_name :: "key_manager \<Rightarrow> py_exc + json" where
  "get_current_key_name km =
     (case getitem_int (api_keys km) (current_index km) of
        Inl e \<Rightarrow> Inl e
      | Inr c \<Rightarrow> getitem_str c (ustr ''name''))"

text \<open>
  \<open>rotate_key\<close> returns the outcome together with the manager as the call leaves it: the
  index is assigned before the \<open>print\<close> formats the new key's name, so an exception of
  that lookup leaves the advanced index behind. The modulo raises on an empty pool.
\<close>

definition rotate_key :: "key_manager \<Rightarrow> (py_exc + unit) \<times> key_manager" where
  "rotate_key km =
     (if total_keys km = 0
      then (Inl (PyExc ''ZeroDivisionError'' (ustr ''integer modulo by zero'')), km)
      else
        (let km' = km\<lparr>current_index := (current_index km + 1) mod total_keys km\<rparr>
         in case get_current_key_name km' of
              Inl e \<Rightarrow> (Inl e, km')
            | Inr n \<Rightarrow> (Inr (), km')))"

text \<open>\<open>k\<close> consecutive calls of \<open>rotate_key\<close>, stopping at the first exception.\<close>

fun rotate_times :: "nat \<Rightarrow> key_manager \<Rightarrow> (py_exc + unit) \<times> key_manager" where
  "rotate_times 0 km = (Inr (), km)"
| "rotate_times (Suc k) km =
     (case rotate_key km of
        (Inl e, km') \<Rightarrow> (Inl e, km')
      | (Inr u, km') \<Rightarrow> rotate_times k km')"

text \<open>
  A credential is an object with a \<open>key\<close> and a \<open>name\<close> member. A pool of \<open>n \<ge> 1\<close>
  credentials is a manager whose \<open>api_keys\<close> is a list of \<open>n\<close> credentials, with
  \<open>total_keys = n\<close> and the index inside the list.
\<close>

fun is_credential :: "json \<Rightarrow> bool" where
  "is_credential (JObj kvs) =
     (map_of kvs (ustr ''key'') \<noteq> None \<and> map_of kvs (ustr ''name'') \<noteq> None)"
| "is_credential v = False"

fun credential_list :: "json \<Rightarrow> json list option" where
  "credential_list (JArr cs) = (if cs \<noteq> [] \<and> list_all is_credential cs then Some cs else None)"
| "credential_list v = None"

definition pool_inv :: "key_manager \<Rightarrow> bool" where
  "pool_inv km =
     (case credential_list (api_keys km) of
        None \<Rightarrow> False
      | Some cs \<Rightarrow> total_keys km = length cs \<and> current_index km < length cs)"

section \<open>gemini\_chat.py: chat\_with\_retry\<close>

text \<open>
  \<open>needle in s\<close> on strings: \<open>needle\<close> occurs in \<open>s\<close> as a contiguous run.
\<close>

fun contains :: "pystr \<Rightarrow> pystr \<Rightarrow> bool" where
  "contains needle [] = (needle = [])"
| "contains needle (c # cs) = (take (length needle) (c # cs) = needle \<or> contains needle cs)"

text \<open>
  \<open>str.lower()\<close>. ASCII capitals map to their small letters. Of all other code points
  only U+0130 and U+212A have a lower-case form that contains an ASCII letter, and they
  are mapped as Python maps them. Every other code point is left as it is: Python maps
  some of them to other non-ASCII code points, which no substring test for an ASCII
  word can tell apart.
\<close>

definition lower_char :: "nat \<Rightarrow> pystr" where
  "lower_char c =
     (if 65 \<le> c \<and> c \<le> 90 then [c + 32]
      else if c = 304 then [105, 775]
      else if c = 8490 then [107]
      else [c])"

definition py_lower :: "pystr \<Rightarrow> pystr" where
  "py_lower s = concat (map lower_char s)"

text \<open>The test of the \<open>except\<close> clause on \<open>error_msg = str(e).lower()\<close>.\<close>

definition is_quota_error :: "pystr \<Rightarrow> bool" where
  "is_quota_error error_msg =
     (contains (ustr ''quota'') error_msg \<or> contains (ustr ''rate'') error_msg
      \<or> contains (ustr ''limit'') error_msg \<or> contains (ustr ''429'') error_msg
      \<or> contains (ustr ''resource'') error_msg)"

definition quota_class :: "py_exc \<Rightarrow> bool" where
  "quota_class e = is_quota_error (py_lower (exc_str e))"

text \<open>
  What an observer of one process sees of the retry loop: \<open>BackendCall i k m\<close> is a
  request to the text backend built from the key \<open>k\<close>, read at index \<open>i\<close>, for the
  message \<open>m\<close>; \<open>Rotated i\<close> is a call of \<open>rotate_key\<close> that returned with the index at \<open>i\<close>.
\<close>

datatype event = BackendCall nat json pystr | Rotated nat

fun call_indices :: "event list \<Rightarrow> nat list" where
  "call_indices [] = []"
| "call_indices (BackendCall i k m # evs) = i # call_indices evs"
| "call_indices (Rotated i # evs) = call_indices evs"

fun rotations :: "event list \<Rightarrow> nat list" where
  "rotations [] = []"
| "rotations (BackendCall i k m # evs) = rotations evs"
| "rotations (Rotated i # evs) = i # rotations evs"

record chat_world =
  manager :: key_manager
  trace :: "event list"

text \<open>
  The text backend: \<open>create_gemini_model(api_key, config)\<close> followed by
  \<open>chat_with_gemini(model, user_message)\<close>, that is the reply text or the exception one of
  the two raises. The first argument is the number of requests made before this one, so
  that the same key may fail on one request and answer the next.
\<close>

type_synonym backend = "nat \<Rightarrow> json \<Rightarrow> json \<Rightarrow> pystr \<Rightarrow> py_exc + pystr"

text \<open>
  The \<open>except\<close> clause of the loop body. \<open>Inr ()\<close> means that the loop goes on. The
  warning's \<open>print\<close> formats the current key's name before \<open>rotate_key\<close> is called; an
  exception raised inside the clause leaves the function.
\<close>

definition on_exception :: "py_exc \<Rightarrow> chat_world \<Rightarrow> (py_exc + unit) \<times> chat_world" where
  "on_exception e w =
     (if is_quota_error (py_lower (exc_str e)) then
        (case get_current_key_name (manager w) of
           Inl e' \<Rightarrow> (Inl e', w)
         | Inr n \<Rightarrow>
             (case rotate_key (manager w) of
                (Inl e', km') \<Rightarrow> (Inl e', w\<lparr>manager := km'\<rparr>)
              | (Inr u, km') \<Rightarrow>
                  (Inr (), w\<lparr>manager := km', trace := trace w @ [Rotated (current_index km')]\<rparr>)))
      else (Inl e, w))"

text \<open>The code points of the message that the final \<open>raise\<close> puts before \<open>last_error\<close>.\<close>

definition exhausted_prefix :: pystr where
  "exhausted_prefix =
     [25152, 26377, 32, 65, 80, 73, 32, 107, 101, 121, 115, 32, 37117, 24050, 22039, 35430,
      22833, 25943, 12290, 26368, 24460, 37679, 35492, 58, 32]"

fun format_last_error :: "py_exc option \<Rightarrow> pystr" where
  "format_last_error None = ustr ''None''"
| "format_last_error (Some e) = exc_str e"

text \<open>
  The \<open>for attempt in range(max_retries)\<close> loop with the \<open>raise\<close> that follows it; the
  first numeric argument is the number of iterations left.
\<close>

fun retry_loop ::
  "backend \<Rightarrow> json \<Rightarrow> pystr \<Rightarrow> nat \<Rightarrow> py_exc option \<Rightarrow> chat_world \<Rightarrow> (py_exc + pystr) \<times> chat_world"
where
  "retry_loop backend config user_message 0 last_error w =
     (Inl (PyExc ''Exception'' (exhausted_prefix @ format_last_error last_error)), w)"
| "retry_loop backend config user_message (Suc r) last_error w =
     (case get_current_key (manager w) of
        Inl e \<Rightarrow>
          (case on_exception e w of
             (Inl e', w') \<Rightarrow> (Inl e', w')
           | (Inr u, w') \<Rightarrow> retry_loop backend config user_message r (Some e) w')
      | Inr api_key \<Rightarrow>
          (let w1 = w\<lparr>trace := trace w @ [BackendCall (current_index (manager w)) api_key user_message]\<rparr>
           in case backend (length (call_indices (trace w))) api_key config user_message of
                Inr response \<Rightarrow> (Inr response, w1)
              | Inl e \<Rightarrow>
                  (case on_exception e w1 of
                     (Inl e', w') \<Rightarrow> (Inl e', w')
                   | (Inr u, w') \<Rightarrow> retry_loop backend config user_message r (Some e) w')))"

text \<open>\<open>range(m)\<close> is empty for \<open>m \<le> 0\<close>.\<close>

definition chat_with_retry ::
  "backend \<Rightarrow> chat_world \<Rightarrow> json \<Rightarrow> pystr \<Rightarrow> int option \<Rightarrow> (py_exc + pystr) \<times> chat_world"
where
  "chat_with_retry backend w config user_message max_retries =
     (let m = (case max_retries of None \<Rightarrow> int (total_keys (manager w)) | Some m \<Rightarrow> m)
      in retry_loop backend config user_message (nat m) None w)"

text \<open>Between two backend calls there is exactly one rotation, and the first event is a call.\<close>

fun calls_and_rotations_alternate :: "event list \<Rightarrow> bool" where
  "calls_and_rotations_alternate [] = True"
| "calls_and_rotations_alternate [BackendCall i k m] = True"
| "calls_and_rotations_alternate (BackendCall i k m # Rotated j # evs) = calls_and_rotations_alternate evs"
| "calls_and_rotations_alternate evs = False"

text \<open>The events that a run from \<open>w\<close> to \<open>w'\<close> appended.\<close>

definition new_events :: "chat_world \<Rightarrow> chat_world \<Rightarrow> event list" where
  "new_events w w' = drop (length (trace w)) (trace w')"

text \<open>The key stored at an index of the pool.\<close>

definition key_at :: "key_manager \<Rightarrow> nat \<Rightarrow> json" where
  "key_at km i = (case get_current_key (km\<lparr>current_index := i\<rparr>) of Inr k \<Rightarrow> k | Inl e \<Rightarrow> JNull)"



section \<open>xtts\_v2.py: XTTSStreamingTTS\<close>

type_synonym byte = "8 word"

text \<open>
  What the class asks of its surroundings: \<open>os.path.abspath\<close>; the three operations of the
  loaded model, each the value it returns or the exception it raises; and the sample
  conversion of \<open>postprocess\<close>. \<open>conditioning\<close> is \<open>model.get_conditioning_latents\<close>, whose
  first argument is the number of earlier extractions, so that two extractions of one
  file need not agree. \<open>inference_stream\<close> gives the chunks the iterator produces and the
  exception that ends it, if one does. \<open>quantize\<close> stands for the floating-point steps
  \<open>np.clip(x, -1, 1)\<close>, \<open>x * 32767\<close> and \<open>astype(np.int16)\<close> on one sample.
\<close>

record ('p, 'f) tts_env =
  abspath :: "pystr \<Rightarrow> pystr"
  conditioning :: "nat \<Rightarrow> pystr \<Rightarrow> py_exc + 'p"
  inference :: "pystr \<Rightarrow> pystr \<Rightarrow> 'p \<Rightarrow> py_exc + 'f list"
  inference_stream :: "pystr \<Rightarrow> pystr \<Rightarrow> 'p \<Rightarrow> json \<Rightarrow> bool \<Rightarrow> 'f list list \<times> py_exc option"
  quantize :: "'f \<Rightarrow> 16 word"

text \<open>
  The object's \<open>_speaker_cache\<close>, with two logs of what the model was asked:
  \<open>extractions\<close> lists the \<open>speaker_wav\<close> arguments of the feature extractions made,
  \<open>syntheses\<close> the texts handed to \<open>inference\<close> and \<open>inference_stream\<close>.
\<close>

record 'p tts_state =
  speaker_cache :: "pystr \<rightharpoonup> 'p"
  extractions :: "pystr list"
  syntheses :: "pystr list"

definition get_conditioning_latents ::
  "('p, 'f) tts_env \<Rightarrow> pystr \<Rightarrow> bool \<Rightarrow> 'p tts_state \<Rightarrow> (py_exc + 'p) \<times> 'p tts_state"
where
  "get_conditioning_latents env speaker_wav use_cache st =
     (let cache_key = abspath env speaker_wav
      in case (if use_cache then speaker_cache st cache_key else None) of
           Some latents \<Rightarrow> (Inr latents, st)
         | None \<Rightarrow>
             (let st1 = st\<lparr>extractions := extractions st @ [speaker_wav]\<rparr>
              in case conditioning env (length (extractions st)) speaker_wav of
                   Inl e \<Rightarrow> (Inl e, st1)
                 | Inr latents \<Rightarrow>
                     (Inr latents,
                      if use_cache
                      then st1\<lparr>speaker_cache := (speaker_cache st1)(cache_key \<mapsto> latents)\<rparr>
                      else st1)))"

text \<open>
  \<open>postprocess\<close> turns the samples of a chunk into an \<open>int16\<close> array; \<open>tobytes\<close> lays the
  array out in the byte order of the host, taken to be little-endian.
\<close>

definition postprocess :: "('f \<Rightarrow> 16 word) \<Rightarrow> 'f list \<Rightarrow> 16 word list" where
  "postprocess q wav = map q wav"

definition tobytes :: "16 word list \<Rightarrow> byte list" where
  "tobytes arr = concat (map (\<lambda>s. [ucast s, ucast (drop_bit 8 s)]) arr)"

subsection \<open>The header written by the wave module\<close>

text \<open>\<open>struct.pack\<close> of one unsigned field, little-endian: \<open>L\<close> is 4 bytes, \<open>H\<close> is 2.\<close>

definition pack_L :: "int \<Rightarrow> py_exc + byte list" where
  "pack_L v =
     (if 0 \<le> v \<and> v \<le> 4294967295
      then Inr [of_int (v mod 256), of_int (v div 256 mod 256),
                of_int (v div 65536 mod 256), of_int (v div 16777216 mod 256)]
      else Inl (PyExc ''struct.error''
             ([39] @ ustr ''L'' @ [39] @ ustr '' format requires 0 <= number <= 4294967295'')))"

definition pack_H :: "int \<Rightarrow> py_exc + byte list" where
  "pack_H v =
     (if 0 \<le> v \<and> v \<le> 65535
      then Inr [of_int (v mod 256), of_int (v div 256 mod 256)]
      else Inl (PyExc ''struct.error'' (ustr ''ushort format requires 0 <= number <= 65535'')))"

definition ascii_bytes :: "string \<Rightarrow> byte list" where
  "ascii_bytes s = map of_char s"

text \<open>The fields are packed in order; the first one out of range raises.\<close>

fun pack_all :: "(py_exc + byte list) list \<Rightarrow> py_exc + byte list" where
  "pack_all [] = Inr []"
| "pack_all (Inl e # fs) = Inl e"
| "pack_all (Inr bs # fs) = (case pack_all fs of Inl e \<Rightarrow> Inl e | Inr rest \<Rightarrow> Inr (bs @ rest))"

text \<open>
  \<open>Wave_write._write_header\<close>: \<open>RIFF\<close>, then
  \<open>struct.pack('<L4s4sLHHLLHH4s', 36 + datalength, 'WAVE', 'fmt ', 16, 1, nchannels, framerate,
  nchannels * framerate * sampwidth, nchannels * sampwidth, sampwidth * 8, 'data')\<close>, then
  \<open>struct.pack('<L', datalength)\<close>.
\<close>

definition write_header :: "int \<Rightarrow> int \<Rightarrow> int \<Rightarrow> int \<Rightarrow> py_exc + byte list" where
  "write_header nchannels sampwidth framerate datalength =
     pack_all
       [Inr (ascii_bytes ''RIFF''), pack_L (36 + datalength), Inr (ascii_bytes ''WAVE''),
        Inr (ascii_bytes ''fmt ''), pack_L 16, pack_H 1, pack_H nchannels, pack_L framerate,
        pack_L (nchannels * framerate * sampwidth), pack_H (nchannels * sampwidth),
        pack_H (sampwidth * 8), Inr (ascii_bytes ''data''), pack_L datalength]"

text \<open>
  \<open>Wave_write._patchheader\<close>: the two length fields, at offsets 4 and 40 of the buffer, are
  overwritten with the number of bytes written.
\<close>

definition patchheader :: "byte list \<Rightarrow> int \<Rightarrow> py_exc + byte list" where
  "patchheader buf datawritten =
     (case pack_L (36 + datawritten) of
        Inl e \<Rightarrow> Inl e
      | Inr form_length \<Rightarrow>
          (case pack_L datawritten of
             Inl e \<Rightarrow> Inl e
           | Inr data_length \<Rightarrow>
               Inr (take 4 buf @ form_length @ take 32 (drop 8 buf) @ data_length @ drop 44 buf)))"

text \<open>
  \<open>encode_audio_to_wav\<close>. A rejected parameter raises inside the \<open>with\<close> block; leaving
  the block closes the writer, which raises in turn because that parameter was never
  set, and this second exception is the one that leaves the function. \<open>writeframes\<close>
  writes the header for the whole frames of the data, appends the data, and patches the
  header when the data is not a whole number of frames.
\<close>

definition encode_audio_to_wav :: "byte list \<Rightarrow> int \<Rightarrow> int \<Rightarrow> int \<Rightarrow> py_exc + byte list" where
  "encode_audio_to_wav audio_data sample_rate sample_width channels =
     (if channels < 1 then Inl (PyExc ''wave.Error'' (ustr ''# channels not specified''))
      else if sample_width < 1 \<or> 4 < sample_width
        then Inl (PyExc ''wave.Error'' (ustr ''sample width not specified''))
      else if sample_rate \<le> 0
        then Inl (PyExc ''wave.Error'' (ustr ''sampling rate not specified''))
      else
        (let datawritten = int (length audio_data);
             nframes = datawritten div (channels * sample_width);
             datalength = nframes * channels * sample_width
         in case write_header channels sample_width sample_rate datalength of
              Inl e \<Rightarrow> Inl e
            | Inr header \<Rightarrow>
                (if datalength \<noteq> datawritten
                 then patchheader (header @ audio_data) datawritten
                 else Inr (header @ audio_data))))"

subsection \<open>Streaming\<close>

text \<open>
  The \<open>for i, chunk in enumerate(chunks)\<close> loop of \<open>tts_stream\<close>, run to its end: the byte
  strings it yields, in order, and the exception that stopped it, if one did.
\<close>

fun stream_loop :: "('f \<Rightarrow> 16 word) \<Rightarrow> bool \<Rightarrow> (nat \<times> 'f list) list \<Rightarrow> byte list list \<times> py_exc option" where
  "stream_loop q add_wav_header [] = ([], None)"
| "stream_loop q add_wav_header ((i, chunk) # rest) =
     (let chunk' = postprocess q chunk
      in if i = 0 \<and> add_wav_header
         then (case encode_audio_to_wav [] 24000 2 1 of
                 Inl e \<Rightarrow> ([], Some e)
               | Inr header \<Rightarrow>
                   (case stream_loop q add_wav_header rest of
                      (ys, err) \<Rightarrow> (header # tobytes chunk' # ys, err)))
         else (case stream_loop q add_wav_header rest of
                 (ys, err) \<Rightarrow> (tobytes chunk' # ys, err)))"

text \<open>
  \<open>tts_stream\<close>, as a generator that is consumed to its end. Nothing runs before the first
  item is asked for; an exception of the feature extraction or of the model's iterator
  ends the stream after the items yielded so far.
\<close>

definition tts_stream ::
  "('p, 'f) tts_env \<Rightarrow> pystr \<Rightarrow> pystr \<Rightarrow> pystr \<Rightarrow> json \<Rightarrow> bool \<Rightarrow> bool \<Rightarrow> 'p tts_state
     \<Rightarrow> (byte list list \<times> py_exc option) \<times> 'p tts_state"
where
  "tts_stream env text speaker_wav language stream_chunk_size add_wav_header enable_text_splitting st =
     (case get_conditioning_latents env speaker_wav True st of
        (Inl e, st1) \<Rightarrow> (([], Some e), st1)
      | (Inr latents, st1) \<Rightarrow>
          (let st2 = st1\<lparr>syntheses := syntheses st1 @ [text]\<rparr>
           in case inference_stream env text language latents stream_chunk_size enable_text_splitting of
                (chunks, stopped) \<Rightarrow>
                  (case stream_loop (quantize env) add_wav_header (enumerate 0 chunks) of
                     (ys, Some e) \<Rightarrow> ((ys, Some e), st2)
                   | (ys, None) \<Rightarrow> ((ys, stopped), st2))))"

text \<open>\<open>tts\<close>: the whole utterance at once, as a WAV file image.\<close>

definition tts ::
  "('p, 'f) tts_env \<Rightarrow> pystr \<Rightarrow> pystr \<Rightarrow> pystr \<Rightarrow> 'p tts_state \<Rightarrow> (py_exc + byte list) \<times> 'p tts_state"
where
  "tts env text speaker_wav language st =
     (case get_conditioning_latents env speaker_wav True st of
        (Inl e, st1) \<Rightarrow> (Inl e, st1)
      | (Inr latents, st1) \<Rightarrow>
          (let st2 = st1\<lparr>syntheses := syntheses st1 @ [text]\<rparr>
           in case inference env text language latents of
                Inl e \<Rightarrow> (Inl e, st2)
              | Inr wav \<Rightarrow> (encode_audio_to_wav (tobytes (postprocess (quantize env) wav)) 24000 2 1, st2)))"

text \<open>
  \<open>tts_to_file\<close> writes the image to \<open>output_path\<close>; the file system is the map from paths to
  contents, and the write itself is taken to succeed.
\<close>

definition tts_to_file ::
  "('p, 'f) tts_env \<Rightarrow> pystr \<Rightarrow> pystr \<Rightarrow> pystr \<Rightarrow> pystr \<Rightarrow> 'p tts_state \<times> (pystr \<rightharpoonup> byte list)
     \<Rightarrow> (py_exc + pystr) \<times> 'p tts_state \<times> (pystr \<rightharpoonup> byte list)"
where
  "tts_to_file env text speaker_wav output_path language s =
     (case tts env text speaker_wav language (fst s) of
        (Inl e, st1) \<Rightarrow> (Inl e, st1, snd s)
      | (Inr audio_data, st1) \<Rightarrow> (Inr output_path, st1, (snd s)(output_path \<mapsto> audio_data)))"

section \<open>server.py\<close>

text \<open>
  The estimate of \<open>chat_and_speak_stream\<close>: \<open>max(5, int(text_length / 10))\<close>. Python
  computes the quotient as a float and \<open>int\<close> truncates it; the quotient is kept exact
  here, which agrees with the float for every length below \<open>10 * 2 ^ 50\<close> characters.
\<close>

definition estimated_chunks :: "pystr \<Rightarrow> nat" where
  "estimated_chunks ai_response =
     (let text_length = length ai_response
      in max 5 (nat \<lfloor>real text_length / 10\<rfloor>))"


subsection \<open>Requests and responses\<close>

text \<open>The truth value of a parsed body, as \<open>not data\<close> takes it.\<close>

fun truthy :: "json \<Rightarrow> bool" where
  "truthy JNull = False"
| "truthy (JBool b) = b"
| "truthy (JInt i) = (i \<noteq> 0)"
| "truthy (JFloat r) = (r \<noteq> 0)"
| "truthy (JStr s) = (s \<noteq> [])"
| "truthy (JArr xs) = (xs \<noteq> [])"
| "truthy (JObj kvs) = (kvs \<noteq> [])"

text \<open>
  \<open>k in data\<close> for a string \<open>k\<close>: a key of a dict, an element of a list, a substring of a
  string; the other values are not iterable.
\<close>

fun py_in :: "pystr \<Rightarrow> json \<Rightarrow> py_exc + bool" where
  "py_in k (JObj kvs) = Inr (map_of kvs k \<noteq> None)"
| "py_in k (JArr xs) = Inr (JStr k \<in> set xs)"
| "py_in k (JStr s) = Inr (contains k s)"
| "py_in k v = Inl (PyExc ''TypeError''
     (ustr ''argument of type '' @ [39] @ ustr (type_name v) @ [39] @ ustr '' is not iterable''))"

text \<open>The code points that \<open>str.isspace\<close> accepts, which are those \<open>str.strip()\<close> removes.\<close>

definition is_space :: "nat \<Rightarrow> bool" where
  "is_space c =
     ((9 \<le> c \<and> c \<le> 13) \<or> (28 \<le> c \<and> c \<le> 32) \<or> c = 133 \<or> c = 160 \<or> c = 5760
      \<or> (8192 \<le> c \<and> c \<le> 8202) \<or> c = 8232 \<or> c = 8233 \<or> c = 8239 \<or> c = 8287 \<or> c = 12288)"

definition py_strip :: "pystr \<Rightarrow> pystr" where
  "py_strip s = rev (dropWhile is_space (rev (dropWhile is_space s)))"

text \<open>\<open>v.strip()\<close>: only a string has the method.\<close>

fun strip_method :: "json \<Rightarrow> py_exc + pystr" where
  "strip_method (JStr s) = Inr (py_strip s)"
| "strip_method v = Inl (PyExc ''AttributeError''
     ([39] @ ustr (type_name v) @ [39] @ ustr '' object has no attribute '' @ [39] @ ustr ''strip'' @ [39]))"

text \<open>\<open>data.get(k, default)\<close>.\<close>

fun dict_get :: "json \<Rightarrow> pystr \<Rightarrow> json \<Rightarrow> py_exc + json" where
  "dict_get (JObj kvs) k d = Inr (case map_of kvs k of Some v \<Rightarrow> v | None \<Rightarrow> d)"
| "dict_get v k d = Inl (PyExc ''AttributeError''
     ([39] @ ustr (type_name v) @ [39] @ ustr '' object has no attribute '' @ [39] @ ustr ''get'' @ [39]))"

text \<open>
  A request, as far as the handlers look at it: what \<open>request.get_json()\<close> gives (the
  parsed body, \<open>JNull\<close> for \<open>None\<close>, or the exception it raises) and the hexadecimal digits
  this request draws from \<open>uuid4\<close>.
\<close>

record request =
  get_json :: "py_exc + json"
  uuid_hex :: pystr

text \<open>
  A response: \<open>jsonify(\<dots>)\<close> with its status, \<open>send_file\<close> of a path under a download name,
  or a streamed body with its headers, given by the items the generator yields and the
  exception that ended it, if one did.
\<close>

datatype response =
    JsonResponse nat json
  | FileResponse pystr pystr
  | StreamResponse "(string \<times> pystr) list" "byte list list" "py_exc option"

text \<open>
  The process: the text backend, \<open>config\<close>, the loaded speech model with its surroundings,
  \<open>SPEAKER_WAV\<close>, \<open>OUTPUT_DIR\<close> and \<open>urllib.parse.quote\<close>, which raises
  \<open>UnicodeEncodeError\<close> on a text that UTF-8 cannot encode (one with a lone surrogate).
\<close>

record ('p, 'f) server_env =
  text_backend :: backend
  config :: json
  speech :: "('p, 'f) tts_env"
  SPEAKER_WAV :: pystr
  OUTPUT_DIR :: pystr
  url_quote :: "pystr \<Rightarrow> py_exc + pystr"

text \<open>The module's globals that requests change, and the files under \<open>OUTPUT_DIR\<close>.\<close>

record 'p server_state =
  key_world :: chat_world
  tts_model :: "'p tts_state"
  files :: "pystr \<rightharpoonup> byte list"

definition error_response :: "nat \<Rightarrow> pystr \<Rightarrow> response" where
  "error_response status msg = JsonResponse status (JObj [(ustr ''error'', JStr msg)])"

text \<open>The two messages of the validation: the text field is missing; the text is empty.\<close>

definition msg_text_missing :: pystr where
  "msg_text_missing = [35531, 25552, 20379, 32, 39, 116, 101, 120, 116, 39, 32, 27396, 20301]"

definition msg_text_empty :: pystr where
  "msg_text_empty = [25991, 23383, 20839, 23481, 19981, 21487, 28858, 31354]"

text \<open>\<open>generate_speech\<close> and \<open>generate_speech_streaming\<close>.\<close>

definition generate_speech ::
  "('p, 'f) server_env \<Rightarrow> pystr \<Rightarrow> pystr \<Rightarrow> 'p server_state \<Rightarrow> (py_exc + pystr) \<times> 'p server_state"
where
  "generate_speech env text output_path st =
     (case tts_to_file (speech env) text (SPEAKER_WAV env) output_path (ustr ''zh-cn'')
             (tts_model st, files st) of
        (r, st1, fs) \<Rightarrow> (r, st\<lparr>tts_model := st1, files := fs\<rparr>))"

definition generate_speech_streaming ::
  "('p, 'f) server_env \<Rightarrow> pystr \<Rightarrow> json \<Rightarrow> 'p server_state
     \<Rightarrow> (byte list list \<times> py_exc option) \<times> 'p server_state"
where
  "generate_speech_streaming env text stream_chunk_size st =
     (case tts_stream (speech env) text (SPEAKER_WAV env) (ustr ''zh-cn'') stream_chunk_size True True
             (tts_model st) of
        (r, st1) \<Rightarrow> (r, st\<lparr>tts_model := st1\<rparr>))"

subsection \<open>The chat endpoints\<close>

text \<open>
  Each handler is one \<open>try\<close> block whose \<open>except Exception\<close> answers 500 with \<open>str(e)\<close>; the
  state keeps what was done before the exception.
\<close>

definition chat_and_speak ::
  "('p, 'f) server_env \<Rightarrow> request \<Rightarrow> 'p server_state \<Rightarrow> response \<times> 'p server_state"
where
  "chat_and_speak env req st =
     (case get_json req of
        Inl e \<Rightarrow> (error_response 500 (exc_str e), st)
      | Inr data \<Rightarrow>
          if \<not> truthy data then (error_response 400 msg_text_missing, st)
          else
            (case py_in (ustr ''text'') data of
               Inl e \<Rightarrow> (error_response 500 (exc_str e), st)
             | Inr present \<Rightarrow>
                 if \<not> present then (error_response 400 msg_text_missing, st)
                 else
                   (case getitem_str data (ustr ''text'') of
                      Inl e \<Rightarrow> (error_response 500 (exc_str e), st)
                    | Inr t \<Rightarrow>
                        (case strip_method t of
                           Inl e \<Rightarrow> (error_response 500 (exc_str e), st)
                         | Inr user_text \<Rightarrow>
                             if user_text = [] then (error_response 400 msg_text_empty, st)
                             else
                               (case chat_with_retry (text_backend env) (key_world st) (config env)
                                       user_text None of
                                  (Inl e, w) \<Rightarrow> (error_response 500 (exc_str e), st\<lparr>key_world := w\<rparr>)
                                | (Inr ai_response, w) \<Rightarrow>
                                    (let output_filename =
                                           ustr ''output_'' @ take 8 (uuid_hex req) @ ustr ''.wav'';
                                         output_path = OUTPUT_DIR env @ ustr ''/'' @ output_filename
                                     in case generate_speech env ai_response output_path
                                               (st\<lparr>key_world := w\<rparr>) of
                                          (Inl e, st') \<Rightarrow> (error_response 500 (exc_str e), st')
                                        | (Inr p, st') \<Rightarrow>
                                            (FileResponse output_path output_filename, st')))))))"

definition chat_and_speak_json ::
  "('p, 'f) server_env \<Rightarrow> request \<Rightarrow> 'p server_state \<Rightarrow> response \<times> 'p server_state"
where
  "chat_and_speak_json env req st =
     (case get_json req of
        Inl e \<Rightarrow> (error_response 500 (exc_str e), st)
      | Inr data \<Rightarrow>
          if \<not> truthy data then (error_response 400 msg_text_missing, st)
          else
            (case py_in (ustr ''text'') data of
               Inl e \<Rightarrow> (error_response 500 (exc_str e), st)
             | Inr present \<Rightarrow>
                 if \<not> present then (error_response 400 msg_text_missing, st)
                 else
                   (case getitem_str data (ustr ''text'') of
                      Inl e \<Rightarrow> (error_response 500 (exc_str e), st)
                    | Inr t \<Rightarrow>
                        (case strip_method t of
                           Inl e \<Rightarrow> (error_response 500 (exc_str e), st)
                         | Inr user_text \<Rightarrow>
                             if user_text = [] then (error_response 400 msg_text_empty, st)
                             else
                               (case chat_with_retry (text_backend env) (key_world st) (config env)
                                       user_text None of
                                  (Inl e, w) \<Rightarrow> (error_response 500 (exc_str e), st\<lparr>key_world := w\<rparr>)
                                | (Inr ai_response, w) \<Rightarrow>
                                    (let output_filename =
                                           ustr ''output_'' @ take 8 (uuid_hex req) @ ustr ''.wav'';
                                         output_path = OUTPUT_DIR env @ ustr ''/'' @ output_filename
                                     in case generate_speech env ai_response output_path
                                               (st\<lparr>key_world := w\<rparr>) of
                                          (Inl e, st') \<Rightarrow> (error_response 500 (exc_str e), st')
                                        | (Inr p, st') \<Rightarrow>
                                            (JsonResponse 200
                                               (JObj [(ustr ''user_text'', JStr user_text),
                                                      (ustr ''ai_response'', JStr ai_response),
                                                      (ustr ''audio_file'', JStr output_path),
                                                      (ustr ''audio_url'',
                                                       JStr (ustr ''/api/audio/'' @ output_filename))]),
                                             st')))))))"

text \<open>
  The streaming handler answers with the headers and a generator; the body is what the
  generator yields when the response is sent, and an exception at that stage only ends
  the body. The headers are built before the generator runs: when \<open>urllib.parse.quote\<close>
  raises, the answer is 500 and nothing is synthesised.
\<close>

definition chat_and_speak_stream ::
  "('p, 'f) server_env \<Rightarrow> request \<Rightarrow> 'p server_state \<Rightarrow> response \<times> 'p server_state"
where
  "chat_and_speak_stream env req st =
     (case get_json req of
        Inl e \<Rightarrow> (error_response 500 (exc_str e), st)
      | Inr data \<Rightarrow>
          if \<not> truthy data then (error_response 400 msg_text_missing, st)
          else
            (case py_in (ustr ''text'') data of
               Inl e \<Rightarrow> (error_response 500 (exc_str e), st)
             | Inr present \<Rightarrow>
                 if \<not> present then (error_response 400 msg_text_missing, st)
                 else
                   (case getitem_str data (ustr ''text'') of
                      Inl e \<Rightarrow> (error_response 500 (exc_str e), st)
                    | Inr t \<Rightarrow>
                        (case strip_method t of
                           Inl e \<Rightarrow> (error_response 500 (exc_str e), st)
                         | Inr user_text \<Rightarrow>
                             (case dict_get data (ustr ''stream_chunk_size'') (JInt 20) of
                                Inl e \<Rightarrow> (error_response 500 (exc_str e), st)
                              | Inr stream_chunk_size \<Rightarrow>
                                  if user_text = [] then (error_response 400 msg_text_empty, st)
                                  else
                                    (case chat_with_retry (text_backend env) (key_world st) (config env)
                                            user_text None of
                                       (Inl e, w) \<Rightarrow>
                                         (error_response 500 (exc_str e), st\<lparr>key_world := w\<rparr>)
                                     | (Inr ai_response, w) \<Rightarrow>
                                         (let estimated = estimated_chunks ai_response
                                          in case url_quote env (take 200 ai_response) of
                                               Inl e \<Rightarrow>
                                                 (error_response 500 (exc_str e), st\<lparr>key_world := w\<rparr>)
                                             | Inr quoted \<Rightarrow>
                                                 (case generate_speech_streaming env ai_response
                                                         stream_chunk_size (st\<lparr>key_world := w\<rparr>) of
                                                    ((ys, err), st') \<Rightarrow>
                                                      (StreamResponse
                                                         [(''X-AI-Response'', quoted),
                                                          (''X-Estimated-Chunks'', str_of_nat estimated),
                                                          (''Transfer-Encoding'', ustr ''chunked''),
                                                          (''Access-Control-Expose-Headers'',
                                                           ustr ''X-AI-Response, X-Estimated-Chunks'')]
                                                         ys err,
                                                       st')))))))))"

text \<open>The value of a header of a streamed response; the other responses carry none of them.\<close>

fun response_header :: "string \<Rightarrow> response \<Rightarrow> pystr option" where
  "response_header h (StreamResponse headers ys err) = map_of headers h"
| "response_header h r = None"



text \<open>
  A request that passes the validation: the body is an object whose \<open>text\<close> member is a
  string with something left once stripped.
\<close>

definition valid_text :: "request \<Rightarrow> bool" where
  "valid_text req =
     (case get_json req of
        Inr (JObj kvs) \<Rightarrow>
          (case map_of kvs (ustr ''text'') of Some (JStr s) \<Rightarrow> py_strip s \<noteq> [] | _ \<Rightarrow> False)
      | _ \<Rightarrow> False)"

section \<open>Example data\<close>

definition cred :: "string \<Rightarrow> string \<Rightarrow> json" where
  "cred n k = JObj [(ustr ''name'', JStr (ustr n)), (ustr ''key'', JStr (ustr k))]"

definition pool3 :: key_manager where
  "pool3 = \<lparr>api_file = ustr ''api_keys.json'',
            api_keys = JArr [cred ''Key 1'' ''AAA'', cred ''Key 2'' ''BBB'', cred ''Key 3'' ''CCC''],
            current_index = 1, total_keys = 3\<rparr>"

definition world3 :: chat_world where
  "world3 = \<lparr>manager = pool3, trace = []\<rparr>"

definition quota_err :: py_exc where
  "quota_err = PyExc ''ResourceExhausted'' (ustr ''429 Quota exceeded for this key'')"

definition flaky_backend :: backend where
  "flaky_backend c api_key cfg user_message = (if c < 2 then Inl quota_err else Inr (ustr ''Hello''))"











definition demo_env :: "(nat, int) tts_env" where
  "demo_env =
     \<lparr>abspath = (\<lambda>p. ustr ''/srv/app/'' @ p),
      conditioning = (\<lambda>n p. Inr n),
      inference = (\<lambda>text language latents. Inr [1, 2, 3]),
      inference_stream = (\<lambda>text language latents size splitting. ([[1, 2], [3]], None)),
      quantize = word_of_int\<rparr>"

definition silent_env :: "(nat, int) tts_env" where
  "silent_env = demo_env\<lparr>inference_stream := (\<lambda>text language latents size splitting. ([], None))\<rparr>"

definition fresh_tts :: "nat tts_state" where
  "fresh_tts = \<lparr>speaker_cache = Map.empty, extractions = [], syntheses = []\<rparr>"


definition demo_server :: "(nat, int) server_env" where
  "demo_server =
     \<lparr>text_backend = flaky_backend, config = JObj [], speech = demo_env,
      SPEAKER_WAV = ustr ''voice.wav'', OUTPUT_DIR = ustr ''outputs'', url_quote = (\<lambda>s. Inr s)\<rparr>"

definition demo_state :: "nat server_state" where
  "demo_state = \<lparr>key_world = world3, tts_model = fresh_tts, files = Map.empty\<rparr>"



definition hi_request :: request where
  "hi_request = \<lparr>get_json = Inr (JObj [(ustr ''text'', JStr (ustr '' Hi ''))]), uuid_hex = ustr ''0123456789abcdef''\<rparr>"


definition long_backend :: backend where
  "long_backend c api_key cfg user_message = Inr (replicate 73 65)"

definition long_server :: "(nat, int) server_env" where
  "long_server = demo_server\<lparr>text_backend := long_backend\<rparr>"


definition null_text_request :: request where
  "null_text_request = \<lparr>get_json = Inr (JObj [(ustr ''text'', JNull)]), uuid_hex = ustr ''0123456789abcdef''\<rparr>"

section \<open>The credential pool\<close>

lemma credential_list_SomeD:
  "credential_list v = Some cs \<Longrightarrow> v = JArr cs \<and> cs \<noteq> [] \<and> list_all is_credential cs"
  by (cases v) (auto split: if_splits)

lemma pool_invD:
  assumes "pool_inv km"
  obtains cs where "api_keys km = JArr cs" "cs \<noteq> []" "list_all is_credential cs"
    "total_keys km = length cs" "current_index km < length cs"
  using assms unfolding pool_inv_def
  by (auto split: option.splits dest: credential_list_SomeD)

lemma is_credential_key:
  "is_credential c \<Longrightarrow> \<exists>v. getitem_str c (ustr ''key'') = Inr v"
  by (cases c) auto

lemma is_credential_name:
  "is_credential c \<Longrightarrow> \<exists>v. getitem_str c (ustr ''name'') = Inr v"
  by (cases c) auto

lemma pool_inv_current_key:
  assumes "pool_inv km"
  shows "\<exists>v. get_current_key km = Inr v"
proof -
  from assms obtain cs where cs: "api_keys km = JArr cs" "list_all is_credential cs"
    "current_index km < length cs" by (rule pool_invD)
  then have "is_credential (cs ! current_index km)" by (simp add: list_all_length)
  then obtain v where "getitem_str (cs ! current_index km) (ustr ''key'') = Inr v"
    using is_credential_key by blast
  with cs show ?thesis by (simp add: get_current_key_def)
qed

lemma pool_inv_current_key_name:
  assumes "pool_inv km"
  shows "\<exists>v. get_current_key_name km = Inr v"
proof -
  from assms obtain cs where cs: "api_keys km = JArr cs" "list_all is_credential cs"
    "current_index km < length cs" by (rule pool_invD)
  then have "is_credential (cs ! current_index km)" by (simp add: list_all_length)
  then obtain v where "getitem_str (cs ! current_index km) (ustr ''name'') = Inr v"
    using is_credential_name by blast
  with cs show ?thesis by (simp add: get_current_key_name_def)
qed

lemma pool_inv_index:
  "pool_inv km \<Longrightarrow> i < total_keys km \<Longrightarrow> pool_inv (km\<lparr>current_index := i\<rparr>)"
  by (auto simp: pool_inv_def split: option.splits)

lemma pool_inv_total: "pool_inv km \<Longrightarrow> 0 < total_keys km \<and> current_index km < total_keys km"
  by (erule pool_invD) simp

lemma rotate_key_pool:
  assumes "pool_inv km"
  shows "rotate_key km = (Inr (), km\<lparr>current_index := (current_index km + 1) mod total_keys km\<rparr>)"
proof -
  have pos: "0 < total_keys km" using assms pool_inv_total by blast
  then have "pool_inv (km\<lparr>current_index := (current_index km + 1) mod total_keys km\<rparr>)"
    using assms by (intro pool_inv_index) simp_all
  then obtain v where
    "get_current_key_name (km\<lparr>current_index := (current_index km + 1) mod total_keys km\<rparr>) = Inr v"
    using pool_inv_current_key_name by blast
  with pos show ?thesis by (simp add: rotate_key_def Let_def)
qed

lemma rotate_times_pool:
  "pool_inv km \<Longrightarrow>
   rotate_times k km = (Inr (), km\<lparr>current_index := (current_index km + k) mod total_keys km\<rparr>)"
proof (induction k arbitrary: km)
  case 0
  then show ?case using pool_inv_total [of km] by simp
next
  case (Suc k)
  let ?km = "km\<lparr>current_index := (current_index km + 1) mod total_keys km\<rparr>"
  have pos: "0 < total_keys km" using Suc.prems pool_inv_total by blast
  have inv: "pool_inv ?km" using Suc.prems pos by (intro pool_inv_index) simp_all
  have "rotate_times (Suc k) km = rotate_times k ?km"
    by (simp add: rotate_key_pool [OF Suc.prems])
  also have "\<dots> = (Inr (), ?km\<lparr>current_index := (current_index ?km + k) mod total_keys ?km\<rparr>)"
    by (rule Suc.IH [OF inv])
  also have "(current_index ?km + k) mod total_keys ?km = (current_index km + Suc k) mod total_keys km"
    by (simp add: mod_add_left_eq)
  finally show ?case by simp
qed

text \<open>
  C4. On a pool of \<open>n \<ge> 1\<close> credentials, at any index, one \<open>rotate_key\<close> returns
  normally and moves the index \<open>i\<close> to \<open>(i + 1) mod n\<close>; \<open>n\<close> consecutive rotations
  return normally and leave the manager as it was, so \<open>get_current_key\<close> yields the
  credential it yielded before.
\<close>

theorem rotate_key_cyclic:
  assumes "pool_inv km"
  shows "rotate_key km = (Inr (), km\<lparr>current_index := (current_index km + 1) mod total_keys km\<rparr>)
       \<and> rotate_times (total_keys km) km = (Inr (), km)
       \<and> get_current_key (snd (rotate_times (total_keys km) km)) = get_current_key km"
proof -
  have "current_index km < total_keys km" using assms pool_inv_total by blast
  then have "rotate_times (total_keys km) km = (Inr (), km)"
    by (simp add: rotate_times_pool [OF assms])
  then show ?thesis using rotate_key_pool [OF assms] by simp
qed

theorem rotate_key_cyclic_witness:
  "pool_inv pool3
   \<and> rotate_key pool3 = (Inr (), pool3\<lparr>current_index := 2\<rparr>)
   \<and> rotate_times 3 pool3 = (Inr (), pool3)
   \<and> get_current_key (snd (rotate_times 3 pool3)) = Inr (JStr (ustr ''BBB''))"
proof -
  have inv: "pool_inv pool3" by code_simp
  have k: "get_current_key pool3 = Inr (JStr (ustr ''BBB''))" by code_simp
  have t: "total_keys pool3 = 3" "current_index pool3 = 1" by (simp_all add: pool3_def)
  show ?thesis using rotate_key_cyclic [OF inv] inv k by (simp add: t)
qed









section \<open>The retry loop\<close>

lemma on_exception_other:
  "\<not> quota_class e \<Longrightarrow> on_exception e w = (Inl e, w)"
  by (simp add: on_exception_def quota_class_def)

lemma on_exception_quota:
  assumes "quota_class e" "pool_inv (manager w)"
  shows "on_exception e w =
    (Inr (), w\<lparr>manager := (manager w)\<lparr>current_index := (current_index (manager w) + 1) mod total_keys (manager w)\<rparr>,
               trace := trace w @ [Rotated ((current_index (manager w) + 1) mod total_keys (manager w))]\<rparr>)"
proof -
  obtain v where "get_current_key_name (manager w) = Inr v"
    using assms(2) pool_inv_current_key_name by blast
  then show ?thesis
    using assms(1) by (simp add: on_exception_def quota_class_def rotate_key_pool [OF assms(2)])
qed

lemma pool_current_key_at:
  "pool_inv km \<Longrightarrow> get_current_key km = Inr (key_at km (current_index km))"
  using pool_inv_current_key [of km] by (auto simp: key_at_def)

lemma pool_inv_rotated:
  "pool_inv km \<Longrightarrow> pool_inv (km\<lparr>current_index := (current_index km + 1) mod total_keys km\<rparr>)"
  using pool_inv_total [of km] by (intro pool_inv_index) simp_all


lemma rotations_append: "rotations (xs @ ys) = rotations xs @ rotations ys"
  by (induction xs rule: rotations.induct) simp_all

lemma cyclic_indices_Suc:
  assumes "i < n"
  shows "i # map (\<lambda>j. ((i + 1) mod n + j) mod n) [0..<k] = map (\<lambda>j. (i + j) mod n) [0..<Suc k]"
proof -
  have "map (\<lambda>j. (i + j) mod n) [0..<Suc k] = (i + 0) mod n # map (\<lambda>j. (i + j) mod n) [Suc 0..<Suc k]"
    by (simp add: upt_conv_Cons del: upt_Suc)
  also have "[Suc 0..<Suc k] = map Suc [0..<k]" by (simp add: map_Suc_upt)
  also have "map (\<lambda>j. (i + j) mod n) (map Suc [0..<k]) = map (\<lambda>j. ((i + 1) mod n + j) mod n) [0..<k]"
    by (simp add: mod_add_left_eq)
  finally show ?thesis using assms by simp
qed

lemma cyclic_indices_distinct:
  assumes "k \<le> n"
  shows "distinct (map (\<lambda>j. (i + j) mod n) [0..<k])"
proof -
  have "inj_on (\<lambda>j. (i + j) mod n) {0..<k}"
  proof (rule inj_onI)
    fix x y assume x: "x \<in> {0..<k}" and y: "y \<in> {0..<k}" and eq: "(i + x) mod n = (i + y) mod n"
    have aux: "a = b" if "a \<le> b" "b < n" "(i + a) mod n = (i + b) mod n" for a b
    proof -
      have "i + a \<le> i + b" using that(1) by simp
      then have "(i + b) mod n = (i + a) mod n \<longleftrightarrow> n dvd (i + b) - (i + a)"
        by (rule mod_eq_dvd_iff_nat)
      then have "n dvd b - a" using that(3) by simp
      moreover have "b - a < n" using that(2) by simp
      ultimately have "b - a = 0" using nat_dvd_not_less by (cases "b - a = 0") auto
      with that(1) show ?thesis by simp
    qed
    from x y assms have "x < n" "y < n" by simp_all
    then show "x = y" using aux [of x y] aux [of y x] eq by (cases "x \<le> y") auto
  qed
  then show ?thesis by (simp add: distinct_map)
qed

lemma retry_loop_trace:
  assumes "pool_inv (manager w)"
  shows "\<exists>evs. trace (snd (retry_loop b cfg msg r le w)) = trace w @ evs
          \<and> calls_and_rotations_alternate evs
          \<and> call_indices evs = map (\<lambda>j. (current_index (manager w) + j) mod total_keys (manager w))
                                  [0..<length (call_indices evs)]
          \<and> length (call_indices evs) \<le> r"
  using assms
proof (induction r arbitrary: le w)
  case 0
  then show ?case by simp
next
  case (Suc r)
  let ?km = "manager w"
  let ?i = "current_index ?km"
  let ?n = "total_keys ?km"
  let ?key = "key_at ?km ?i"
  let ?w1 = "w\<lparr>trace := trace w @ [BackendCall ?i ?key msg]\<rparr>"
  have key: "get_current_key ?km = Inr ?key" using Suc.prems by (rule pool_current_key_at)
  have lt: "?i < ?n" using Suc.prems pool_inv_total by blast
  show ?case
  proof (cases "b (length (call_indices (trace w))) ?key cfg msg")
    case (Inr reply)
    then have "retry_loop b cfg msg (Suc r) le w = (Inr reply, ?w1)"
      by (simp add: key)
    then show ?thesis using lt by (intro exI [of _ "[BackendCall ?i ?key msg]"]) simp
  next
    case (Inl e)
    show ?thesis
    proof (cases "quota_class e")
      case False
      then have "retry_loop b cfg msg (Suc r) le w = (Inl e, ?w1)"
        using Inl by (simp add: key on_exception_other)
      then show ?thesis using lt by (intro exI [of _ "[BackendCall ?i ?key msg]"]) simp
    next
      case True
      let ?i' = "(?i + 1) mod ?n"
      let ?w2 = "?w1\<lparr>manager := ?km\<lparr>current_index := ?i'\<rparr>, trace := trace ?w1 @ [Rotated ?i']\<rparr>"
      have inv1: "pool_inv (manager ?w1)" using Suc.prems by simp
      have oe: "on_exception e ?w1 = (Inr (), ?w2)"
        using on_exception_quota [OF True inv1] by simp
      have step: "retry_loop b cfg msg (Suc r) le w = retry_loop b cfg msg r (Some e) ?w2"
        using Inl by (simp add: key oe)
      have inv2: "pool_inv (manager ?w2)" using pool_inv_rotated [OF Suc.prems] by simp
      from Suc.IH [OF inv2, of "Some e"] obtain evs where
        evs: "trace (snd (retry_loop b cfg msg r (Some e) ?w2)) = trace ?w2 @ evs"
          "calls_and_rotations_alternate evs"
          "call_indices evs = map (\<lambda>j. (?i' + j) mod ?n) [0..<length (call_indices evs)]"
          "length (call_indices evs) \<le> r"
        by auto
      let ?evs = "BackendCall ?i ?key msg # Rotated ?i' # evs"
      have "call_indices ?evs = ?i # map (\<lambda>j. (?i' + j) mod ?n) [0..<length (call_indices evs)]"
        using evs(3) by simp
      also have "\<dots> = map (\<lambda>j. (?i + j) mod ?n) [0..<Suc (length (call_indices evs))]"
        by (rule cyclic_indices_Suc [OF lt])
      finally have ci: "call_indices ?evs = map (\<lambda>j. (?i + j) mod ?n) [0..<length (call_indices ?evs)]"
        by simp
      have "trace (snd (retry_loop b cfg msg (Suc r) le w)) = trace w @ ?evs"
        using evs(1) step by simp
      moreover have "calls_and_rotations_alternate ?evs" using evs(2) by simp
      moreover have "length (call_indices ?evs) \<le> Suc r" using evs(4) by simp
      ultimately show ?thesis using ci by blast
    qed
  qed
qed



lemma retry_loop_reply:
  assumes "pool_inv (manager w)"
    and "backend (length (call_indices (trace w))) (key_at (manager w) (current_index (manager w))) cfg msg = Inr reply"
  shows "retry_loop backend cfg msg (Suc r) le w =
    (Inr reply, w\<lparr>trace := trace w @ [BackendCall (current_index (manager w)) (key_at (manager w) (current_index (manager w))) msg]\<rparr>)"
  using assms(2) by (simp add: pool_current_key_at [OF assms(1)])


lemma retry_loop_quota:
  assumes "pool_inv (manager w)"
    and "backend (length (call_indices (trace w))) (key_at (manager w) (current_index (manager w))) cfg msg = Inl e"
    and "quota_class e"
  shows "retry_loop backend cfg msg (Suc r) le w =
    retry_loop backend cfg msg r (Some e)
      (w\<lparr>manager := (manager w)\<lparr>current_index := (current_index (manager w) + 1) mod total_keys (manager w)\<rparr>,
         trace := trace w @ [BackendCall (current_index (manager w)) (key_at (manager w) (current_index (manager w))) msg,
                             Rotated ((current_index (manager w) + 1) mod total_keys (manager w))]\<rparr>)"
proof -
  let ?w1 = "w\<lparr>trace := trace w @ [BackendCall (current_index (manager w)) (key_at (manager w) (current_index (manager w))) msg]\<rparr>"
  have inv1: "pool_inv (manager ?w1)" using assms(1) by simp
  show ?thesis
    using assms(2) on_exception_quota [OF assms(3) inv1]
    by (simp add: pool_current_key_at [OF assms(1)])
qed

lemma quota_err_quota_class: "quota_class quota_err"
  by (simp add: quota_class_def is_quota_error_def py_lower_def lower_char_def ustr_def quota_err_def)

lemma pool3_keys:
  "key_at pool3 0 = JStr (ustr ''AAA'')" "key_at pool3 1 = JStr (ustr ''BBB'')"
  "key_at pool3 2 = JStr (ustr ''CCC'')"
  by (simp_all add: key_at_def get_current_key_def pool3_def cred_def ustr_def)

lemma pool3_inv_any: "i < 3 \<Longrightarrow> pool_inv (pool3\<lparr>current_index := i\<rparr>)"
  by (simp add: pool_inv_def pool3_def cred_def ustr_def)

lemma world3_sel: "manager world3 = pool3" "trace world3 = []"
  by (simp_all add: world3_def)

lemma pool3_sel: "total_keys pool3 = 3" "current_index pool3 = 1"
  by (simp_all add: pool3_def)

lemma pool3_inv0: "pool_inv pool3"
  using pool3_inv_any [of 1] by (simp add: pool3_def)

lemma key_at_index [simp]: "key_at (km\<lparr>current_index := j\<rparr>) i = key_at km i"
  by (simp add: key_at_def)

lemma flaky_run: "chat_with_retry flaky_backend world3 (JObj []) (ustr ''Hi'') None =
  (Inr (ustr ''Hello''),
   \<lparr>manager = pool3\<lparr>current_index := 0\<rparr>,
    trace = [BackendCall 1 (JStr (ustr ''BBB'')) (ustr ''Hi''), Rotated 2,
             BackendCall 2 (JStr (ustr ''CCC'')) (ustr ''Hi''), Rotated 0,
             BackendCall 0 (JStr (ustr ''AAA'')) (ustr ''Hi'')]\<rparr>)"
proof -
  let ?cfg = "JObj []" and ?msg = "ustr ''Hi''"
  let ?c1 = "BackendCall 1 (JStr (ustr ''BBB'')) ?msg"
  let ?c2 = "BackendCall 2 (JStr (ustr ''CCC'')) ?msg"
  let ?c3 = "BackendCall 0 (JStr (ustr ''AAA'')) ?msg"
  let ?w1 = "\<lparr>manager = pool3\<lparr>current_index := 2\<rparr>, trace = [?c1, Rotated 2]\<rparr>"
  let ?w2 = "\<lparr>manager = pool3\<lparr>current_index := 0\<rparr>, trace = [?c1, Rotated 2, ?c2, Rotated 0]\<rparr>"
  let ?w3 = "\<lparr>manager = pool3\<lparr>current_index := 0\<rparr>, trace = [?c1, Rotated 2, ?c2, Rotated 0, ?c3]\<rparr>"
  have b: "flaky_backend 0 k c m = Inl quota_err" "flaky_backend 1 k c m = Inl quota_err"
    "flaky_backend 2 k c m = Inr (ustr ''Hello'')" for k c m
    by (simp_all add: flaky_backend_def)
  have b': "flaky_backend (Suc 0) k c m = Inl quota_err"
    "flaky_backend (Suc (Suc 0)) k c m = Inr (ustr ''Hello'')" for k c m
    by (simp_all add: flaky_backend_def)
  have ks: "key_at pool3 (Suc 0) = JStr (ustr ''BBB'')" "key_at pool3 (Suc (Suc 0)) = JStr (ustr ''CCC'')"
    using pool3_keys by (simp_all add: numeral_2_eq_2)
  have invs: "pool_inv (pool3\<lparr>current_index := Suc (Suc 0)\<rparr>)" "pool_inv (pool3\<lparr>current_index := 0\<rparr>)"
    by (simp_all add: pool3_inv_any)
  have "chat_with_retry flaky_backend world3 ?cfg ?msg None
      = retry_loop flaky_backend ?cfg ?msg (Suc (Suc (Suc 0))) None world3"
    by (simp add: chat_with_retry_def world3_sel pool3_sel numeral_3_eq_3 del: retry_loop.simps)
  also have "\<dots> = retry_loop flaky_backend ?cfg ?msg (Suc (Suc 0)) (Some quota_err) ?w1"
    using retry_loop_quota [of world3 flaky_backend ?cfg ?msg quota_err "Suc (Suc 0)" None]
    by (simp add: world3_sel pool3_sel pool3_inv0 b quota_err_quota_class pool3_keys ks world3_def numeral_2_eq_2 del: retry_loop.simps)
  also have "\<dots> = retry_loop flaky_backend ?cfg ?msg (Suc 0) (Some quota_err) ?w2"
    using retry_loop_quota [of ?w1 flaky_backend ?cfg ?msg quota_err "Suc 0" "Some quota_err"]
    by (simp add: pool3_sel invs b b' quota_err_quota_class pool3_keys ks numeral_2_eq_2 del: retry_loop.simps)
  also have "\<dots> = (Inr (ustr ''Hello''), ?w3)"
    using retry_loop_reply [of ?w2 flaky_backend ?cfg ?msg "ustr ''Hello''" 0 "Some quota_err"]
    by (simp add: pool3_sel invs b b' pool3_keys ks numeral_2_eq_2 del: retry_loop.simps)
  finally show ?thesis .
qed















text \<open>
  C1. On a pool of \<open>n \<ge> 1\<close> credentials, for every backend, configuration and message, one
  call of \<open>chat_with_retry\<close> with the default \<open>max_retries\<close> appends to the trace at most
  \<open>n\<close> backend calls; the indices they use are \<open>i, i + 1, \<dots>\<close> modulo \<open>n\<close> from the
  starting index \<open>i\<close>, hence pairwise distinct; and between two consecutive calls there is
  exactly one rotation.
\<close>

theorem chat_with_retry_one_cycle:
  assumes "pool_inv (manager w)"
  shows "trace (snd (chat_with_retry backend w cfg user_message None))
           = trace w @ new_events w (snd (chat_with_retry backend w cfg user_message None))
       \<and> length (call_indices (new_events w (snd (chat_with_retry backend w cfg user_message None))))
           \<le> total_keys (manager w)
       \<and> distinct (call_indices (new_events w (snd (chat_with_retry backend w cfg user_message None))))
       \<and> call_indices (new_events w (snd (chat_with_retry backend w cfg user_message None)))
           = map (\<lambda>j. (current_index (manager w) + j) mod total_keys (manager w))
               [0..<length (call_indices (new_events w (snd (chat_with_retry backend w cfg user_message None))))]
       \<and> calls_and_rotations_alternate
           (new_events w (snd (chat_with_retry backend w cfg user_message None)))"
proof -
  let ?w' = "snd (chat_with_retry backend w cfg user_message None)"
  let ?n = "total_keys (manager w)"
  have run: "?w' = snd (retry_loop backend cfg user_message ?n None w)"
    by (simp add: chat_with_retry_def)
  from retry_loop_trace [OF assms, of backend cfg user_message ?n None]
  obtain evs where evs: "trace ?w' = trace w @ evs" "calls_and_rotations_alternate evs"
      "call_indices evs = map (\<lambda>j. (current_index (manager w) + j) mod ?n) [0..<length (call_indices evs)]"
      "length (call_indices evs) \<le> ?n"
    unfolding run by blast
  have ne: "new_events w ?w' = evs" by (simp add: new_events_def evs(1))
  have "distinct (call_indices evs)"
    using cyclic_indices_distinct [OF evs(4), of "current_index (manager w)"] evs(3) by simp
  then show ?thesis unfolding ne using evs by simp
qed

theorem chat_with_retry_one_cycle_witness:
  "pool_inv (manager world3)
   \<and> call_indices (new_events world3 (snd (chat_with_retry flaky_backend world3 (JObj []) (ustr ''Hi'') None)))
       = [1, 2, 0]
   \<and> rotations (new_events world3 (snd (chat_with_retry flaky_backend world3 (JObj []) (ustr ''Hi'') None)))
       = [2, 0]
   \<and> distinct (call_indices (new_events world3 (snd (chat_with_retry flaky_backend world3 (JObj []) (ustr ''Hi'') None))))
   \<and> calls_and_rotations_alternate
       (new_events world3 (snd (chat_with_retry flaky_backend world3 (JObj []) (ustr ''Hi'') None)))"
proof -
  have inv: "pool_inv (manager world3)"
    by (simp add: world3_sel pool3_inv0)
  have ev: "new_events world3 (snd (chat_with_retry flaky_backend world3 (JObj []) (ustr ''Hi'') None)) =
     [BackendCall 1 (JStr (ustr ''BBB'')) (ustr ''Hi''), Rotated 2,
      BackendCall 2 (JStr (ustr ''CCC'')) (ustr ''Hi''), Rotated 0,
      BackendCall 0 (JStr (ustr ''AAA'')) (ustr ''Hi'')]"
    by (simp add: flaky_run new_events_def world3_sel)
  show ?thesis
    using chat_with_retry_one_cycle [OF inv, of flaky_backend "JObj []" "ustr ''Hi''"] inv
    by (simp add: ev)
qed







section \<open>Example requests\<close>


lemma strip_hi: "py_strip (ustr '' Hi '') = ustr ''Hi''"
  by (simp add: py_strip_def is_space_def ustr_def)

lemma demo_server_sel:
  "text_backend demo_server = flaky_backend" "config demo_server = JObj []"
  "speech demo_server = demo_env" "SPEAKER_WAV demo_server = ustr ''voice.wav''"
  "url_quote demo_server t = Inr t"
  by (simp_all add: demo_server_def)

lemma demo_state_sel:
  "key_world demo_state = world3" "tts_model demo_state = fresh_tts"
  by (simp_all add: demo_state_def)

lemma strip_hi_nonempty: "py_strip (ustr '' Hi '') \<noteq> []"
  unfolding strip_hi by (simp add: ustr_def)

section \<open>The streaming handler's estimate\<close>

lemma floor_div10: "nat \<lfloor>real n / 10\<rfloor> = n div 10"
proof -
  have "\<lfloor>real n / real 10\<rfloor> = int (n div 10)"
    by (rule floor_divide_of_nat_eq)
  then show ?thesis by simp
qed

lemma estimated_chunks_eq: "estimated_chunks s = max 5 (length s div 10)"
  by (simp add: estimated_chunks_def Let_def floor_div10)

text \<open>
  What the streaming handler answers once the text backend has replied: 500 when
  \<open>urllib.parse.quote\<close> raises, and otherwise a stream whose \<open>X-Estimated-Chunks\<close> header is
  the \<open>str\<close> of the estimate.
\<close>

lemma stream_quote_raises:
  assumes "get_json req = Inr (JObj kvs)" and "map_of kvs (ustr ''text'') = Some (JStr s)"
    and "py_strip s \<noteq> []"
    and "chat_with_retry (text_backend env) (key_world st) (config env) (py_strip s) None
           = (Inr ai_response, w)"
    and "url_quote env (take 200 ai_response) = Inl e"
  shows "chat_and_speak_stream env req st = (error_response 500 (exc_str e), st\<lparr>key_world := w\<rparr>)"
proof -
  have ne: "kvs \<noteq> []" using assms(2) by auto
  show ?thesis using assms ne by (simp add: chat_and_speak_stream_def Let_def)
qed

lemma stream_estimate_header:
  assumes "get_json req = Inr (JObj kvs)" and "map_of kvs (ustr ''text'') = Some (JStr s)"
    and "py_strip s \<noteq> []"
    and "chat_with_retry (text_backend env) (key_world st) (config env) (py_strip s) None
           = (Inr ai_response, w)"
    and "url_quote env (take 200 ai_response) = Inr q"
  shows "response_header ''X-Estimated-Chunks'' (fst (chat_and_speak_stream env req st))
           = Some (str_of_nat (max 5 (length ai_response div 10)))"
proof -
  have ne: "kvs \<noteq> []" using assms(2) by auto
  show ?thesis
    using assms ne
    by (simp add: chat_and_speak_stream_def Let_def estimated_chunks_eq split: prod.splits)
qed

lemma long_run: "chat_with_retry long_backend world3 (JObj []) (ustr ''Hi'') None =
  (Inr (replicate 73 65),
   \<lparr>manager = pool3, trace = [BackendCall 1 (JStr (ustr ''BBB'')) (ustr ''Hi'')]\<rparr>)"
proof -
  have k: "key_at pool3 (Suc 0) = JStr (ustr ''BBB'')"
    using pool3_keys by simp
  have "chat_with_retry long_backend world3 (JObj []) (ustr ''Hi'') None
      = retry_loop long_backend (JObj []) (ustr ''Hi'') (Suc (Suc (Suc 0))) None world3"
    by (simp add: chat_with_retry_def world3_sel pool3_sel numeral_3_eq_3 del: retry_loop.simps)
  also have "\<dots> = (Inr (replicate 73 65),
      \<lparr>manager = pool3, trace = [BackendCall 1 (JStr (ustr ''BBB'')) (ustr ''Hi'')]\<rparr>)"
    using retry_loop_reply [of world3 long_backend "JObj []" "ustr ''Hi''" "replicate 73 65"
        "Suc (Suc 0)" None]
    by (simp add: world3_sel pool3_sel pool3_inv0 long_backend_def k world3_def
        del: retry_loop.simps)
  finally show ?thesis .
qed

text \<open>
  C6. In the streaming chat handler, for a request that passes the validation and a
  reply \<open>ai_response\<close> of the text backend, the estimated chunk count is
  \<open>n = max(5, floor(len(ai_response) / 10))\<close>: the handler answers with a stream whose
  \<open>X-Estimated-Chunks\<close> header is \<open>str(n)\<close> (or with 500, and no such header, when quoting
  the reply for the \<open>X-AI-Response\<close> header raises). The count is at least 5 for every
  reply, the empty one included, and it does not decrease when the reply gets longer:
  any other streamed answer, to a reply that is at least as long, carries a count \<open>m \<ge> n\<close>.
\<close>

theorem stream_estimated_chunks:
  fixes env :: "('p, 'f) server_env"
  assumes "get_json req = Inr (JObj kvs)" and "map_of kvs (ustr ''text'') = Some (JStr s)"
    and "py_strip s \<noteq> []"
    and "chat_with_retry (text_backend env) (key_world st) (config env) (py_strip s) None
           = (Inr ai_response, w)"
  shows "\<exists>n. n = max 5 (length ai_response div 10)
           \<and> n = estimated_chunks ai_response
           \<and> 5 \<le> n
           \<and> (case url_quote env (take 200 ai_response) of
                 Inl e \<Rightarrow> fst (chat_and_speak_stream env req st) = error_response 500 (exc_str e)
               | Inr q \<Rightarrow>
                   response_header ''X-Estimated-Chunks'' (fst (chat_and_speak_stream env req st))
                     = Some (str_of_nat n))
           \<and> (\<forall>(env' :: ('p, 'f) server_env) req' st' kvs' s' other w' q'.
                 get_json req' = Inr (JObj kvs') \<and> map_of kvs' (ustr ''text'') = Some (JStr s')
                 \<and> py_strip s' \<noteq> []
                 \<and> chat_with_retry (text_backend env') (key_world st') (config env') (py_strip s') None
                     = (Inr other, w')
                 \<and> url_quote env' (take 200 other) = Inr q'
                 \<and> length ai_response \<le> length other
                 \<longrightarrow> (\<exists>m. response_header ''X-Estimated-Chunks''
                              (fst (chat_and_speak_stream env' req' st')) = Some (str_of_nat m)
                          \<and> n \<le> m))"
proof -
  let ?n = "max 5 (length ai_response div 10)"
  have a: "case url_quote env (take 200 ai_response) of
             Inl e \<Rightarrow> fst (chat_and_speak_stream env req st) = error_response 500 (exc_str e)
           | Inr q \<Rightarrow>
               response_header ''X-Estimated-Chunks'' (fst (chat_and_speak_stream env req st))
                 = Some (str_of_nat ?n)"
  proof (cases "url_quote env (take 200 ai_response)")
    case (Inl e)
    show ?thesis using stream_quote_raises [OF assms Inl] Inl by simp
  next
    case (Inr q)
    show ?thesis using stream_estimate_header [OF assms Inr] Inr by simp
  qed
  have b: "\<exists>m. response_header ''X-Estimated-Chunks''
                  (fst (chat_and_speak_stream env' req' st')) = Some (str_of_nat m) \<and> ?n \<le> m"
    if r: "get_json req' = Inr (JObj kvs')" "map_of kvs' (ustr ''text'') = Some (JStr s')"
      "py_strip s' \<noteq> []"
      "chat_with_retry (text_backend env') (key_world st') (config env') (py_strip s') None
         = (Inr other, w')"
      "url_quote env' (take 200 other) = Inr q'"
      and l: "length ai_response \<le> length other"
    for env' :: "('p, 'f) server_env" and req' st' kvs' s' other w' q'
  proof -
    have "length ai_response div 10 \<le> length other div 10"
      using l by (rule div_le_mono)
    then have "?n \<le> max 5 (length other div 10)" by simp
    then show ?thesis using stream_estimate_header [OF r] by blast
  qed
  show ?thesis
    using a b by (simp add: estimated_chunks_eq) blast
qed

theorem stream_estimated_chunks_witness:
  "get_json hi_request = Inr (JObj [(ustr ''text'', JStr (ustr '' Hi ''))])
   \<and> py_strip (ustr '' Hi '') = ustr ''Hi''
   \<and> fst (chat_with_retry (text_backend demo_server) (key_world demo_state) (config demo_server)
            (ustr ''Hi'') None) = Inr (ustr ''Hello'')
   \<and> url_quote demo_server (take 200 (ustr ''Hello'')) = Inr (ustr ''Hello'')
   \<and> response_header ''X-Estimated-Chunks'' (fst (chat_and_speak_stream demo_server hi_request demo_state))
       = Some (ustr ''5'')
   \<and> fst (chat_with_retry (text_backend long_server) (key_world demo_state) (config long_server)
            (ustr ''Hi'') None) = Inr (replicate 73 65)
   \<and> response_header ''X-Estimated-Chunks'' (fst (chat_and_speak_stream long_server hi_request demo_state))
       = Some (ustr ''7'')"
proof -
  have g: "get_json hi_request = Inr (JObj [(ustr ''text'', JStr (ustr '' Hi ''))])"
    by (simp add: hi_request_def)
  have t: "map_of [(ustr ''text'', JStr (ustr '' Hi ''))] (ustr ''text'') = Some (JStr (ustr '' Hi ''))"
    by simp
  note ne = strip_hi_nonempty
  have c1: "chat_with_retry (text_backend demo_server) (key_world demo_state) (config demo_server)
              (py_strip (ustr '' Hi '')) None
            = (Inr (ustr ''Hello''),
               \<lparr>manager = pool3\<lparr>current_index := 0\<rparr>,
                trace = [BackendCall 1 (JStr (ustr ''BBB'')) (ustr ''Hi''), Rotated 2,
                         BackendCall 2 (JStr (ustr ''CCC'')) (ustr ''Hi''), Rotated 0,
                         BackendCall 0 (JStr (ustr ''AAA'')) (ustr ''Hi'')]\<rparr>)"
    by (simp add: demo_server_sel demo_state_sel strip_hi flaky_run)
  have c2: "chat_with_retry (text_backend long_server) (key_world demo_state) (config long_server)
              (py_strip (ustr '' Hi '')) None
            = (Inr (replicate 73 65),
               \<lparr>manager = pool3, trace = [BackendCall 1 (JStr (ustr ''BBB'')) (ustr ''Hi'')]\<rparr>)"
    by (simp add: long_server_def demo_server_sel demo_state_sel strip_hi long_run)
  have l: "length (ustr ''Hello'') = 5" by (simp add: ustr_def)
  have q1: "url_quote demo_server (take 200 (ustr ''Hello'')) = Inr (ustr ''Hello'')"
    by (simp add: demo_server_sel l)
  have q2: "url_quote long_server r = Inr r" for r
    by (simp add: long_server_def demo_server_def)
  have n5: "str_of_nat 5 = ustr ''5''" and n7: "str_of_nat 7 = ustr ''7''"
    by (simp_all add: str_of_nat.simps ustr_def)
  have h1: "response_header ''X-Estimated-Chunks''
              (fst (chat_and_speak_stream demo_server hi_request demo_state)) = Some (ustr ''5'')"
    using stream_estimated_chunks [OF g t ne c1] by (simp add: demo_server_sel l n5)
  have h2: "response_header ''X-Estimated-Chunks''
              (fst (chat_and_speak_stream long_server hi_request demo_state)) = Some (ustr ''7'')"
    using stream_estimated_chunks [OF g t ne c2] by (simp add: q2 n7)
  show ?thesis
    using g h1 h2 q1 c1 c2 by (simp add: strip_hi)
qed

section \<open>Audio framing\<close>

lemma encode_empty:
  "encode_audio_to_wav [] 24000 2 1 =
     Inr [82, 73, 70, 70, 36, 0, 0, 0, 87, 65, 86, 69, 102, 109, 116, 32, 16, 0, 0, 0, 1, 0, 1, 0,
          192, 93, 0, 0, 128, 187, 0, 0, 2, 0, 16, 0, 100, 97, 116, 97, 0, 0, 0, 0]"
  by (simp add: encode_audio_to_wav_def write_header_def pack_L_def pack_H_def ascii_bytes_def Let_def)

lemma stream_loop_rest:
  "stream_loop q add_wav_header (enumerate (Suc n) chunks) =
     (map (\<lambda>c. tobytes (postprocess q c)) chunks, None)"
  by (induction chunks arbitrary: n) (simp_all add: Let_def)

lemma stream_loop_header:
  assumes "encode_audio_to_wav [] 24000 2 1 = Inr header"
  shows "stream_loop q True (enumerate 0 chunks) =
     ((if chunks = [] then [] else header # map (\<lambda>c. tobytes (postprocess q c)) chunks), None)"
  using assms by (cases chunks) (simp_all add: Let_def stream_loop_rest)

lemma stream_loop_plain:
  "stream_loop q False (enumerate n chunks) = (map (\<lambda>c. tobytes (postprocess q c)) chunks, None)"
  by (induction chunks arbitrary: n) (simp_all add: Let_def)


lemma demo_latents: "get_conditioning_latents demo_env (ustr ''voice.wav'') True fresh_tts =
    (Inr 0, \<lparr>speaker_cache = [ustr ''/srv/app/'' @ ustr ''voice.wav'' \<mapsto> 0],
              extractions = [ustr ''voice.wav''], syntheses = []\<rparr>)"
  by (simp add: get_conditioning_latents_def demo_env_def fresh_tts_def Let_def)

lemma silent_latents: "get_conditioning_latents silent_env (ustr ''voice.wav'') True fresh_tts =
    (Inr 0, \<lparr>speaker_cache = [ustr ''/srv/app/'' @ ustr ''voice.wav'' \<mapsto> 0],
              extractions = [ustr ''voice.wav''], syntheses = []\<rparr>)"
  by (simp add: get_conditioning_latents_def silent_env_def demo_env_def fresh_tts_def Let_def)

lemma demo_bytes:
  "tobytes (postprocess word_of_int [1, 2 :: int]) = [1, 0, 2, 0]"
  "tobytes (postprocess word_of_int [3 :: int]) = [3, 0]"
  by (simp_all add: tobytes_def postprocess_def)


text \<open>
  C7, as the code has it. When the feature extraction succeeds and the model's iterator
  produces the chunks \<open>c1, \<dots>, ck\<close> and ends normally, \<open>tts_stream\<close> with
  \<open>add_wav_header=True\<close> yields, for \<open>k \<ge> 1\<close>, the header once and then the bytes of each
  post-processed chunk exactly once, in production order, so that the concatenation is
  \<open>header ++ c1 ++ \<dots> ++ ck\<close>; for \<open>k = 0\<close> it yields nothing, the header included.
\<close>

theorem tts_stream_framing:
  assumes "fst (get_conditioning_latents env speaker_wav True st) = Inr latents"
    and "inference_stream env text language latents stream_chunk_size enable_text_splitting = (chunks, None)"
  shows "\<exists>header. encode_audio_to_wav [] 24000 2 1 = Inr header
           \<and> fst (tts_stream env text speaker_wav language stream_chunk_size True enable_text_splitting st) =
               ((if chunks = [] then []
                 else header # map (\<lambda>c. tobytes (postprocess (quantize env) c)) chunks), None)
           \<and> concat (fst (fst (tts_stream env text speaker_wav language stream_chunk_size True
                                 enable_text_splitting st))) =
               (if chunks = [] then []
                else header @ concat (map (\<lambda>c. tobytes (postprocess (quantize env) c)) chunks))"
proof -
  obtain st1 where g: "get_conditioning_latents env speaker_wav True st = (Inr latents, st1)"
    using assms(1) by (cases "get_conditioning_latents env speaker_wav True st") simp
  have run: "fst (tts_stream env text speaker_wav language stream_chunk_size True enable_text_splitting st) =
      ((if chunks = [] then []
        else [82, 73, 70, 70, 36, 0, 0, 0, 87, 65, 86, 69, 102, 109, 116, 32, 16, 0, 0, 0, 1, 0, 1, 0,
              192, 93, 0, 0, 128, 187, 0, 0, 2, 0, 16, 0, 100, 97, 116, 97, 0, 0, 0, 0]
             # map (\<lambda>c. tobytes (postprocess (quantize env) c)) chunks), None)"
    by (simp add: tts_stream_def g assms(2) Let_def stream_loop_header [OF encode_empty])
  show ?thesis
    by (rule exI, intro conjI, rule encode_empty, rule run) (simp add: run)
qed

theorem tts_stream_framing_witness:
  "fst (get_conditioning_latents demo_env (ustr ''voice.wav'') True fresh_tts) = Inr 0
   \<and> inference_stream demo_env (ustr ''Hi'') (ustr ''zh-cn'') 0 (JInt 20) True = ([[1, 2], [3]], None)
   \<and> concat (fst (fst (tts_stream demo_env (ustr ''Hi'') (ustr ''voice.wav'') (ustr ''zh-cn'') (JInt 20)
                         True True fresh_tts))) =
       [82, 73, 70, 70, 36, 0, 0, 0, 87, 65, 86, 69, 102, 109, 116, 32, 16, 0, 0, 0, 1, 0, 1, 0,
        192, 93, 0, 0, 128, 187, 0, 0, 2, 0, 16, 0, 100, 97, 116, 97, 0, 0, 0, 0]
       @ [1, 0, 2, 0] @ [3, 0]"
proof -
  have a: "fst (get_conditioning_latents demo_env (ustr ''voice.wav'') True fresh_tts) = Inr 0"
    by (simp add: demo_latents)
  have b: "inference_stream demo_env (ustr ''Hi'') (ustr ''zh-cn'') 0 (JInt 20) True = ([[1, 2], [3]], None)"
    by (simp add: demo_env_def)
  have q: "quantize demo_env = word_of_int" by (simp add: demo_env_def)
  show ?thesis
    using tts_stream_framing [OF a b] a b
    by (auto simp add: encode_empty q demo_bytes)
qed

text \<open>
  C7 as stated fails for the empty sequence: when the iterator produces no chunk the
  stream is empty, while the header has 44 bytes.
\<close>

theorem tts_stream_no_chunks_counterexample:
  "fst (get_conditioning_latents silent_env (ustr ''voice.wav'') True fresh_tts) = Inr 0
   \<and> inference_stream silent_env (ustr ''Hi'') (ustr ''zh-cn'') 0 (JInt 20) True = ([], None)
   \<and> concat (fst (fst (tts_stream silent_env (ustr ''Hi'') (ustr ''voice.wav'') (ustr ''zh-cn'') (JInt 20)
                         True True fresh_tts))) = []
   \<and> encode_audio_to_wav [] 24000 2 1 =
       Inr [82, 73, 70, 70, 36, 0, 0, 0, 87, 65, 86, 69, 102, 109, 116, 32, 16, 0, 0, 0, 1, 0, 1, 0,
            192, 93, 0, 0, 128, 187, 0, 0, 2, 0, 16, 0, 100, 97, 116, 97, 0, 0, 0, 0]"
proof -
  have b: "inference_stream silent_env (ustr ''Hi'') (ustr ''zh-cn'') 0 (JInt 20) True = ([], None)"
    by (simp add: silent_env_def demo_env_def)
  have "fst (tts_stream silent_env (ustr ''Hi'') (ustr ''voice.wav'') (ustr ''zh-cn'') (JInt 20)
                         True True fresh_tts) = ([], None)"
    by (simp add: tts_stream_def silent_latents b Let_def)
  then show ?thesis using b by (simp add: silent_latents encode_empty)
qed

text \<open>
  C10. \<open>encode_audio_to_wav(b"", sample_rate=24000)\<close> is a fixed header of 44 bytes: the
  RIFF and WAVE tags, a format chunk declaring PCM, 1 channel, 24000 Hz and 16 bits in
  2-byte samples, and a data chunk whose length field is 0. \<open>tts_stream\<close> yields it
  right before the first chunk; when there is no chunk nothing is yielded, not even the
  header.
\<close>

theorem wav_stream_header:
  "encode_audio_to_wav [] 24000 2 1 =
     Inr [82, 73, 70, 70, 36, 0, 0, 0, 87, 65, 86, 69, 102, 109, 116, 32, 16, 0, 0, 0, 1, 0, 1, 0,
          192, 93, 0, 0, 128, 187, 0, 0, 2, 0, 16, 0, 100, 97, 116, 97, 0, 0, 0, 0]
   \<and> write_header 1 2 24000 0 =
       pack_all [Inr (ascii_bytes ''RIFF''), pack_L 36, Inr (ascii_bytes ''WAVE''),
                 Inr (ascii_bytes ''fmt ''), pack_L 16, pack_H 1, pack_H 1, pack_L 24000,
                 pack_L 48000, pack_H 2, pack_H 16, Inr (ascii_bytes ''data''), pack_L 0]
   \<and> encode_audio_to_wav [] 24000 2 1 = write_header 1 2 24000 0
   \<and> (case encode_audio_to_wav [] 24000 2 1 of
         Inl e \<Rightarrow> False
       | Inr header \<Rightarrow>
           length header = 44
           \<and> Inr (take 4 (drop 40 header)) = pack_L 0
           \<and> Inr (take 2 (drop 22 header)) = pack_H 1
           \<and> Inr (take 4 (drop 24 header)) = pack_L 24000
           \<and> Inr (take 2 (drop 34 header)) = pack_H (2 * 8)
           \<and> stream_loop q True (enumerate 0 (chunk # chunks)) =
               (header # map (\<lambda>c. tobytes (postprocess q c)) (chunk # chunks), None))
   \<and> stream_loop q True (enumerate 0 []) = ([], None)
   \<and> concat (fst (stream_loop q True (enumerate 0 []))) = []"
proof -
  have w: "write_header 1 2 24000 0 =
       pack_all [Inr (ascii_bytes ''RIFF''), pack_L 36, Inr (ascii_bytes ''WAVE''),
                 Inr (ascii_bytes ''fmt ''), pack_L 16, pack_H 1, pack_H 1, pack_L 24000,
                 pack_L 48000, pack_H 2, pack_H 16, Inr (ascii_bytes ''data''), pack_L 0]"
    by (simp add: write_header_def)
  have e: "encode_audio_to_wav [] 24000 2 1 = write_header 1 2 24000 0"
    by (simp add: encode_audio_to_wav_def Let_def split: sum.splits)
  have s: "stream_loop q True (enumerate 0 (chunk # chunks)) =
      ([82, 73, 70, 70, 36, 0, 0, 0, 87, 65, 86, 69, 102, 109, 116, 32, 16, 0, 0, 0, 1, 0, 1, 0,
          192, 93, 0, 0, 128, 187, 0, 0, 2, 0, 16, 0, 100, 97, 116, 97, 0, 0, 0, 0]
        # map (\<lambda>c. tobytes (postprocess q c)) (chunk # chunks), None)"
    using stream_loop_header [OF encode_empty, of q "chunk # chunks"] by simp
  have f: "pack_L 0 = Inr [0, 0, 0, 0]" "pack_H 1 = Inr [1, 0]" "pack_L 24000 = Inr [192, 93, 0, 0]"
    "pack_H (2 * 8) = Inr [16, 0]"
    by (simp_all add: pack_L_def pack_H_def)
  have c: "(case encode_audio_to_wav [] 24000 2 1 of
         Inl e \<Rightarrow> False
       | Inr header \<Rightarrow>
           length header = 44
           \<and> Inr (take 4 (drop 40 header)) = pack_L 0
           \<and> Inr (take 2 (drop 22 header)) = pack_H 1
           \<and> Inr (take 4 (drop 24 header)) = pack_L 24000
           \<and> Inr (take 2 (drop 34 header)) = pack_H (2 * 8)
           \<and> stream_loop q True (enumerate 0 (chunk # chunks)) =
               (header # map (\<lambda>c. tobytes (postprocess q c)) (chunk # chunks), None))"
    unfolding encode_empty using s f by simp
  show ?thesis
    apply (intro conjI)
         apply (rule encode_empty)
        apply (rule w)
       apply (rule e)
      apply (rule c)
     apply simp
    apply simp
    done
qed

section \<open>The speaker cache\<close>

lemma gcl_cached:
  "speaker_cache st (abspath env wav) = Some v \<Longrightarrow>
   get_conditioning_latents env wav True st = (Inr v, st)"
  by (simp add: get_conditioning_latents_def Let_def)

lemma gcl_uncached:
  "speaker_cache st (abspath env wav) = None \<Longrightarrow>
   get_conditioning_latents env wav True st =
     (case conditioning env (length (extractions st)) wav of
        Inl e \<Rightarrow> (Inl e, st\<lparr>extractions := extractions st @ [wav]\<rparr>)
      | Inr v \<Rightarrow> (Inr v, st\<lparr>extractions := extractions st @ [wav],
                            speaker_cache := (speaker_cache st)(abspath env wav \<mapsto> v)\<rparr>))"
  by (simp add: get_conditioning_latents_def Let_def split: sum.splits)

lemma gcl_returns:
  assumes "fst (get_conditioning_latents env wav True st) = Inr v"
  shows "speaker_cache (snd (get_conditioning_latents env wav True st)) (abspath env wav) = Some v
       \<and> length (extractions (snd (get_conditioning_latents env wav True st))) \<le> Suc (length (extractions st))"
proof (cases "speaker_cache st (abspath env wav)")
  case None
  then show ?thesis using assms by (auto simp add: gcl_uncached split: sum.splits)
next
  case (Some u)
  then show ?thesis using assms by (simp add: gcl_cached)
qed

lemma gcl_other_key:
  assumes "abspath env a \<noteq> abspath env b"
  shows "speaker_cache (snd (get_conditioning_latents env a True st)) (abspath env b) =
         speaker_cache st (abspath env b)"
proof (cases "speaker_cache st (abspath env a)")
  case None
  then show ?thesis using assms by (auto simp add: gcl_uncached split: sum.splits)
next
  case (Some u)
  then show ?thesis by (simp add: gcl_cached)
qed

lemma demo_env_sel:
  "abspath demo_env p = ustr ''/srv/app/'' @ p" "conditioning demo_env n p = Inr n"
  by (simp_all add: demo_env_def)


text \<open>
  C8. When a call of \<open>get_conditioning_latents\<close> with \<open>use_cache=True\<close> returns a value, a
  following call for a path with the same absolute path returns that value from the
  cache, leaves the state as it is and extracts nothing, so the two calls make at most one
  extraction, whatever a second extraction would have produced. Two calls for paths with
  different absolute paths, neither cached, make one extraction each, in order, and each
  returns the outcome of its own extraction.
\<close>

theorem speaker_cache_once:
  "(fst (get_conditioning_latents env wav True st) = Inr v \<and> abspath env wav' = abspath env wav \<longrightarrow>
      get_conditioning_latents env wav' True (snd (get_conditioning_latents env wav True st)) =
        (Inr v, snd (get_conditioning_latents env wav True st))
      \<and> length (extractions (snd (get_conditioning_latents env wav' True
                   (snd (get_conditioning_latents env wav True st))))) \<le> Suc (length (extractions st)))
   \<and> (abspath env a \<noteq> abspath env b \<and> speaker_cache st (abspath env a) = None
        \<and> speaker_cache st (abspath env b) = None \<longrightarrow>
      extractions (snd (get_conditioning_latents env b True (snd (get_conditioning_latents env a True st))))
        = extractions st @ [a, b]
      \<and> fst (get_conditioning_latents env a True st) = conditioning env (length (extractions st)) a
      \<and> fst (get_conditioning_latents env b True (snd (get_conditioning_latents env a True st)))
          = conditioning env (Suc (length (extractions st))) b)"
proof (intro conjI impI)
  assume h: "fst (get_conditioning_latents env wav True st) = Inr v \<and> abspath env wav' = abspath env wav"
  let ?st1 = "snd (get_conditioning_latents env wav True st)"
  have c: "speaker_cache ?st1 (abspath env wav') = Some v"
    using gcl_returns [of env wav st v] h by simp
  show "get_conditioning_latents env wav' True ?st1 = (Inr v, ?st1)"
    by (rule gcl_cached [OF c])
  then show "length (extractions (snd (get_conditioning_latents env wav' True ?st1))) \<le> Suc (length (extractions st))"
    using gcl_returns [of env wav st v] h by simp
next
  assume h: "abspath env a \<noteq> abspath env b \<and> speaker_cache st (abspath env a) = None
        \<and> speaker_cache st (abspath env b) = None"
  let ?st1 = "snd (get_conditioning_latents env a True st)"
  have ua: "speaker_cache st (abspath env a) = None" and ne: "abspath env a \<noteq> abspath env b"
    using h by simp_all
  have ub: "speaker_cache ?st1 (abspath env b) = None"
    using gcl_other_key [OF ne, of st] h by simp
  have e1: "extractions ?st1 = extractions st @ [a]"
    by (simp add: gcl_uncached [OF ua] split: sum.splits)
  show "fst (get_conditioning_latents env a True st) = conditioning env (length (extractions st)) a"
    by (simp add: gcl_uncached [OF ua] split: sum.splits)
  show "fst (get_conditioning_latents env b True ?st1) = conditioning env (Suc (length (extractions st))) b"
    by (simp add: gcl_uncached [OF ub] e1 split: sum.splits)
  show "extractions (snd (get_conditioning_latents env b True ?st1)) = extractions st @ [a, b]"
    by (simp add: gcl_uncached [OF ub] e1 split: sum.splits)
qed

theorem speaker_cache_once_witness:
  "fst (get_conditioning_latents demo_env (ustr ''voice.wav'') True fresh_tts) = Inr 0
   \<and> conditioning demo_env 1 (ustr ''voice.wav'') = Inr 1
   \<and> fst (get_conditioning_latents demo_env (ustr ''voice.wav'') True
            (snd (get_conditioning_latents demo_env (ustr ''voice.wav'') True fresh_tts))) = Inr 0
   \<and> extractions (snd (get_conditioning_latents demo_env (ustr ''voice.wav'') True
            (snd (get_conditioning_latents demo_env (ustr ''voice.wav'') True fresh_tts)))) = [ustr ''voice.wav'']
   \<and> abspath demo_env (ustr ''voice.wav'') \<noteq> abspath demo_env (ustr ''other.wav'')
   \<and> extractions (snd (get_conditioning_latents demo_env (ustr ''other.wav'') True
            (snd (get_conditioning_latents demo_env (ustr ''voice.wav'') True fresh_tts))))
       = [ustr ''voice.wav'', ustr ''other.wav'']
   \<and> fst (get_conditioning_latents demo_env (ustr ''other.wav'') True
            (snd (get_conditioning_latents demo_env (ustr ''voice.wav'') True fresh_tts))) = Inr 1"
proof -
  have f: "fst (get_conditioning_latents demo_env (ustr ''voice.wav'') True fresh_tts) = Inr 0"
    by (simp add: demo_latents)
  have ne: "abspath demo_env (ustr ''voice.wav'') \<noteq> abspath demo_env (ustr ''other.wav'')"
    by (simp add: demo_env_sel ustr_def)
  have u: "speaker_cache fresh_tts k = None" "extractions fresh_tts = []" for k
    by (simp_all add: fresh_tts_def)
  show ?thesis
    using speaker_cache_once [of demo_env "ustr ''voice.wav''" fresh_tts 0 "ustr ''voice.wav''"
        "ustr ''voice.wav''" "ustr ''other.wav''"] f ne
    by (simp add: u demo_env_sel demo_latents)
qed

section \<open>Request validation\<close>






text \<open>
  Whatever the body is, a request that does not pass the validation leaves the state as it
  was: the handlers reach \<open>chat_with_retry\<close> and the speech model only after it.
\<close>

lemma rejected_request_no_calls:
  assumes "\<not> valid_text req"
  shows "snd (chat_and_speak env req st) = st"
    and "snd (chat_and_speak_json env req st) = st"
    and "snd (chat_and_speak_stream env req st) = st"
proof -
  show "snd (chat_and_speak env req st) = st"
    using assms
    by (auto simp add: chat_and_speak_def valid_text_def
        split: sum.splits json.splits option.splits if_splits)
  show "snd (chat_and_speak_json env req st) = st"
    using assms
    by (auto simp add: chat_and_speak_json_def valid_text_def
        split: sum.splits json.splits option.splits if_splits)
  show "snd (chat_and_speak_stream env req st) = st"
    using assms
    by (auto simp add: chat_and_speak_stream_def valid_text_def
        split: sum.splits json.splits option.splits if_splits)
qed


lemma null_text_500:
  "chat_and_speak_stream env null_text_request st =
     (error_response 500
        ([39] @ ustr ''NoneType'' @ [39] @ ustr '' object has no attribute '' @ [39] @ ustr ''strip'' @ [39]),
      st)"
  by (simp add: chat_and_speak_stream_def null_text_request_def)

lemma error_response_status:
  "error_response a m = error_response b m' \<longleftrightarrow> a = b \<and> m = m'"
  by (auto simp add: error_response_def)







end
